theory Spec2Isabelle
  imports Main "HOL-Library.Word" "HOL-Library.Sublist"
begin

section \<open>FortressConnection: the panel client of \<^verbatim>\<open>FortressConnection.py\<close>\<close>

text \<open>
  The client keeps a TCP session with the alarm panel, decodes the status frames the panel
  pushes and publishes changes through three optional handlers. The embedding follows the
  methods of the class \<^verbatim>\<open>FortressConnection\<close> one by one.

  \<^item> Python \<^verbatim>\<open>bytes\<close> are lists of 8-bit words; an element read by index is a Python
    \<^verbatim>\<open>int\<close>, here \<open>uint\<close> of the word.
  \<^item> The object's attributes are the fields of the record \<open>client\<close>. An attribute that is
    \<^verbatim>\<open>None\<close> or an object is an \<open>option\<close>.
  \<^item> What a method does to the outside (a handler called, a buffer handed to the socket, a
    timer started or cancelled) is appended to a list of events, in program order.
  \<^item> A method returns the client after it, the events, and the exception that ended it, if
    one did: attributes assigned before a raise keep their new values, as in Python.
  \<^item> The calls \<^verbatim>\<open>_info\<close>, \<^verbatim>\<open>_debug\<close> and \<^verbatim>\<open>print\<close> write to the log and the console only; they
    read but never assign an attribute and are left out of the events.
  \<^item> The socket and the timers belong to the operating system and the threading library. A
    call on \<^verbatim>\<open>None\<close> raises \<^verbatim>\<open>AttributeError\<close>. A stored socket is connected or not, and
    \<^verbatim>\<open>shutdown\<close> on one that is not connected raises \<^verbatim>\<open>OSError\<close>. For \<^verbatim>\<open>send\<close> the model records
    the buffer handed to the socket; what the transport does with it is not modelled.
  \<^item> A handler is taken to return without raising and without calling back into the client.
  \<^item> Each method is one sequential run; the interleaving of the receive loop with the timer
    threads is not part of the model. The connect sequence and receive loop of \<^verbatim>\<open>work\<close>, and
    \<^verbatim>\<open>_reconnect\<close> which calls it, act on the network and are named only as the target of a timer.
  \<^item> A method \<^verbatim>\<open>_name\<close> of the class is the constant \<open>name\<close> here.
\<close>

subsection \<open>Bytes and the module constants\<close>

type_synonym byte = "8 word"
type_synonym bytes = "byte list"

definition HEARTBEAT_INTERVAL :: nat where "HEARTBEAT_INTERVAL = 4"
definition TIMEOUT_AFTER :: nat where "TIMEOUT_AFTER = 9"
definition RETRY_AFTER_ERROR :: nat where "RETRY_AFTER_ERROR = 3"

definition HANDSHAKE :: bytes where
  "HANDSHAKE = [0x00, 0x00, 0x00, 0x03, 0x0f, 0x00, 0x00, 0x08, 0x00, 0x0a,
                0x4a, 0x51, 0x45, 0x42, 0x53, 0x53, 0x42, 0x4f, 0x4c, 0x41]"

definition BIND_ME :: bytes where
  "BIND_ME = [0x00, 0x00, 0x00, 0x03, 0x04, 0x00, 0x00, 0x90, 0x02]"

definition CONNECTION_IS_BOUND :: bytes where
  "CONNECTION_IS_BOUND = [0x00, 0x00, 0x00, 0x03, 0x04, 0x00, 0x00, 0x09, 0x00]"

definition HEARTBEAT :: bytes where
  "HEARTBEAT = [0x00, 0x00, 0x00, 0x03, 0x03, 0x00, 0x00, 0x15]"

definition HEARTBEAT_ACK :: bytes where
  "HEARTBEAT_ACK = [0x00, 0x00, 0x00, 0x03, 0x03, 0x00, 0x00, 0x16]"

definition COMMAND :: bytes where
  "COMMAND = [0x00, 0x00, 0x00, 0x03, 0x57, 0x00, 0x00, 0x90, 0x01, 0x00, 0x10, 0x00, 0x00]"

definition ALARMING :: bytes where "ALARMING = [0x01]"

definition DISARM :: bytes where "DISARM = [0x10]"
definition ARM :: bytes where "ARM = [0x00]"
definition STAY_ARM :: bytes where "STAY_ARM = [0x20]"

subsection \<open>Library functions of Python used by the client\<close>

datatype error = ValueError | UnicodeEncodeError | AttributeError | OSError

text \<open>
  \<^verbatim>\<open>bytes(s, 'utf-8')\<close> for the one-character string \<^verbatim>\<open>s = chr(ch)\<close>: the UTF-8 encoding of
  the code point \<open>ch\<close>, one byte below 0x80, two below 0x800, three below 0x10000, else four.
\<close>

definition utf8_encode :: "int \<Rightarrow> bytes" where
  "utf8_encode ch =
     (if ch < 0x80 then [word_of_int ch]
      else if ch < 0x800 then
        [word_of_int (0xC0 + ch div 64), word_of_int (0x80 + ch mod 64)]
      else if ch < 0x10000 then
        [word_of_int (0xE0 + ch div 4096), word_of_int (0x80 + ch div 64 mod 64),
         word_of_int (0x80 + ch mod 64)]
      else
        [word_of_int (0xF0 + ch div 262144), word_of_int (0x80 + ch div 4096 mod 64),
         word_of_int (0x80 + ch div 64 mod 64), word_of_int (0x80 + ch mod 64)])"

text \<open>
  \<^verbatim>\<open>_to_bin_char(ch) = bytes(chr(ch), 'utf-8')\<close>. \<^verbatim>\<open>chr\<close> raises \<^verbatim>\<open>ValueError\<close> outside
  \<open>0 .. 0x10FFFF\<close>; encoding a surrogate raises \<^verbatim>\<open>UnicodeEncodeError\<close>.
\<close>

definition to_bin_char :: "int \<Rightarrow> error + bytes" where
  "to_bin_char ch =
     (if ch < 0 \<or> 0x10FFFF < ch then Inl ValueError
      else if 0xD800 \<le> ch \<and> ch \<le> 0xDFFF then Inl UnicodeEncodeError
      else Inr (utf8_encode ch))"

text \<open>\<^verbatim>\<open>int.from_bytes(bs, byteorder='big')\<close>.\<close>

definition int_from_bytes :: "bytes \<Rightarrow> int" where
  "int_from_bytes bs = foldl (\<lambda>acc b. acc * 256 + uint b) 0 bs"

text \<open>
  \<^verbatim>\<open>data.find(sub)\<close>: the lowest index at which \<open>sub\<close> starts in \<open>data\<close>, or \<open>-1\<close>.
\<close>

fun find_from :: "int \<Rightarrow> bytes \<Rightarrow> bytes \<Rightarrow> int" where
  "find_from i [] sub = (if sub = [] then i else - 1)"
| "find_from i (x # xs) sub =
     (if prefix sub (x # xs) then i else find_from (i + 1) xs sub)"

definition bytes_find :: "bytes \<Rightarrow> bytes \<Rightarrow> int" where
  "bytes_find data sub = find_from 0 data sub"

text \<open>The slice \<^verbatim>\<open>data[i:j]\<close> for \<open>0 \<le> i \<le> j\<close>.\<close>

definition slice :: "bytes \<Rightarrow> nat \<Rightarrow> nat \<Rightarrow> bytes" where
  "slice data i j = take (j - i) (drop i data)"

subsection \<open>The client object, its timers and its effects\<close>

text \<open>
  A timer object is what it was constructed with: the delay and the bound method it will
  call. \<^verbatim>\<open>threading.Timer\<close> fires once, \<^verbatim>\<open>RepeatingTimer\<close> (a module of the repository that
  is not among the sources; the client only constructs, starts and cancels it) repeatedly.
\<close>

datatype timer_target = Reconnect string | SendHeartbeat

datatype timer = Timer nat timer_target | RepeatingTimer nat timer_target

text \<open>
  A socket object, with whether the operating system holds it connected. \<^verbatim>\<open>work\<close> assigns the
  new socket to \<^verbatim>\<open>self.fortress_socket\<close> before it calls \<^verbatim>\<open>connect\<close>, and its \<^verbatim>\<open>except\<close> branch
  leaves it there: after a failed connect the client holds \<open>Socket False\<close>. A connection the
  peer has dropped is \<open>Socket False\<close> as well.
\<close>

datatype socket = Socket (connected: bool)

datatype event =
    OnErrorChange bool
  | OnStatusChange bytes
  | OnAlarmChange "bool option" int
  | SocketSend bytes
  | SocketShutdown
  | SocketClose
  | TimerStart timer
  | TimerCancel timer

text \<open>
  The three handler attributes hold a callable or \<^verbatim>\<open>None\<close>; the client only tests them for
  truth and calls them, so the record keeps whether one is set.
\<close>

record client =
  timeout_timer :: "timer option"
  fortress_socket :: "socket option"
  arm_status :: "bytes option"
  alarming :: "bool option"
  heartbeat_timer :: "timer option"
  all_good :: bool
  count :: int
  onStatusChange :: bool
  onErrorChange :: bool
  onAlarmChange :: bool

type_synonym outcome = "client \<times> event list \<times> error option"

text \<open>\<^verbatim>\<open>__init__\<close>: the client as constructed, before any handler is set.\<close>

definition init :: client where
  "init = \<lparr>timeout_timer = None, fortress_socket = None, arm_status = None, alarming = None,
           heartbeat_timer = None, all_good = False, count = 0,
           onStatusChange = False, onErrorChange = False, onAlarmChange = False\<rparr>"

text \<open>Sequencing of statements: the second runs only if the first did not raise.\<close>

definition skip :: "client \<Rightarrow> outcome" where
  "skip s = (s, [], None)"

definition then_do :: "outcome \<Rightarrow> (client \<Rightarrow> outcome) \<Rightarrow> outcome" where
  "then_do r f =
     (case r of
        (s, es, Some e) \<Rightarrow> (s, es, Some e)
      | (s, es, None) \<Rightarrow> (case f s of (s', es', r') \<Rightarrow> (s', es @ es', r')))"

definition state_of :: "outcome \<Rightarrow> client" where "state_of r = fst r"
definition events_of :: "outcome \<Rightarrow> event list" where "events_of r = fst (snd r)"
definition raised :: "outcome \<Rightarrow> error option" where "raised r = snd (snd r)"

subsection \<open>The methods\<close>

definition send_to_socket :: "bytes \<Rightarrow> client \<Rightarrow> outcome" where
  "send_to_socket msg s =
     (case fortress_socket s of
        None \<Rightarrow> (s, [], Some AttributeError)
      | Some sock \<Rightarrow> (s, [SocketSend msg], None))"

definition sendCommand :: "bytes \<Rightarrow> client \<Rightarrow> outcome" where
  "sendCommand msg s = send_to_socket (COMMAND @ msg @ replicate 78 0x00) s"

definition set_all_good :: "bool \<Rightarrow> client \<Rightarrow> outcome" where
  "set_all_good isGood s =
     (let s = s\<lparr>all_good := isGood\<rparr>
      in (s, if onErrorChange s then [OnErrorChange (all_good s)] else [], None))"

definition cancel_timeout_timer :: "client \<Rightarrow> outcome" where
  "cancel_timeout_timer s =
     (case timeout_timer s of
        Some t \<Rightarrow> (s\<lparr>timeout_timer := None\<rparr>, [TimerCancel t], None)
      | None \<Rightarrow> skip s)"

definition cancel_heartbeat_timer :: "client \<Rightarrow> outcome" where
  "cancel_heartbeat_timer s =
     (case heartbeat_timer s of
        Some t \<Rightarrow> (s\<lparr>heartbeat_timer := None\<rparr>, [TimerCancel t], None)
      | None \<Rightarrow> skip s)"

definition clear_timers :: "client \<Rightarrow> outcome" where
  "clear_timers s = then_do (cancel_timeout_timer s) cancel_heartbeat_timer"

definition start_timeout_timer :: "timer \<Rightarrow> client \<Rightarrow> outcome" where
  "start_timeout_timer t s = (s\<lparr>timeout_timer := Some t\<rparr>, [TimerStart t], None)"

definition reschedule_reconnect_asap :: "client \<Rightarrow> outcome" where
  "reschedule_reconnect_asap s =
     then_do (set_all_good False s) (\<lambda>s.
     then_do (clear_timers s) (\<lambda>s.
     start_timeout_timer (Timer RETRY_AFTER_ERROR (Reconnect ''...AFTER EXCEPTION'')) s))"

definition reschedule_reconnect :: "client \<Rightarrow> outcome" where
  "reschedule_reconnect s =
     then_do (cancel_timeout_timer s) (\<lambda>s.
     start_timeout_timer (Timer TIMEOUT_AFTER (Reconnect [])) s)"

definition send_heartbeat :: "client \<Rightarrow> outcome" where
  "send_heartbeat s =
     then_do (s\<lparr>count := count s + 1\<rparr>, [], None) (send_to_socket HEARTBEAT)"

definition set_alarming :: "bool option \<Rightarrow> bytes \<Rightarrow> client \<Rightarrow> outcome" where
  "set_alarming cur_alarming zone s =
     (let zone = int_from_bytes zone;
          s = s\<lparr>alarming := cur_alarming\<rparr>
      in (s, if onAlarmChange s then [OnAlarmChange (alarming s) zone] else [], None))"

definition set_arm_status :: "bytes \<Rightarrow> client \<Rightarrow> outcome" where
  "set_arm_status cur_arm_status s =
     (let s = s\<lparr>arm_status := Some cur_arm_status\<rparr>
      in (s, if onStatusChange s then [OnStatusChange cur_arm_status] else [], None))"

text \<open>
  The decoding lines of \<^verbatim>\<open>_process_update\<close>, named after the local variables they assign.
  They are evaluated only for a buffer of 182 bytes, so the indices are in range.
\<close>

definition status_and_outlets :: "bytes \<Rightarrow> int" where
  "status_and_outlets data = int_from_bytes (slice data 10 13)"

definition latest_arm_status :: "bytes \<Rightarrow> error + bytes" where
  "latest_arm_status data = to_bin_char (push_bit 4 (drop_bit 20 (status_and_outlets data)))"

definition now_alarming :: "bytes \<Rightarrow> error + bool" where
  "now_alarming data =
     (case to_bin_char (uint (data ! 181)) of
        Inl e \<Rightarrow> Inl e
      | Inr c \<Rightarrow> Inr (c = ALARMING))"

definition zone_of :: "bytes \<Rightarrow> error + bytes" where
  "zone_of data = to_bin_char (uint (data ! 89))"

definition process_update :: "bytes \<Rightarrow> client \<Rightarrow> outcome" where
  "process_update data s =
     (if data = [] \<or> (length data \<noteq> 182 \<and> length data \<noteq> 8 \<and> data \<noteq> CONNECTION_IS_BOUND)
      then reschedule_reconnect_asap s
      else
        then_do (if bytes_find data HEARTBEAT_ACK \<noteq> - 1 then reschedule_reconnect s else skip s)
        (\<lambda>s.
          if length data = 182 then
            (case now_alarming data of
               Inl e \<Rightarrow> (s, [], Some e)
             | Inr now \<Rightarrow>
            (case latest_arm_status data of
               Inl e \<Rightarrow> (s, [], Some e)
             | Inr latest \<Rightarrow>
            (case zone_of data of
               Inl e \<Rightarrow> (s, [], Some e)
             | Inr zone \<Rightarrow>
               then_do (if Some latest \<noteq> arm_status s then set_arm_status latest s else skip s)
               (\<lambda>s.
                 if Some now \<noteq> alarming s then
                   if alarming s \<noteq> Some True \<or> latest = DISARM
                   then set_alarming (Some now) zone s
                   else skip s
                 else skip s))))
          else skip s))"

text \<open>
  \<^verbatim>\<open>self.fortress_socket.shutdown(socket.SHUT_WR)\<close>: on a socket that is not connected the
  call raises \<^verbatim>\<open>OSError\<close> (\<^verbatim>\<open>ENOTCONN\<close>), and the statements after it do not run.
\<close>

definition socket_shutdown :: "socket \<Rightarrow> client \<Rightarrow> outcome" where
  "socket_shutdown sock s =
     (if connected sock then (s, [SocketShutdown], None) else (s, [], Some OSError))"

definition tear_down :: "client \<Rightarrow> outcome" where
  "tear_down s =
     then_do (set_all_good False s) (\<lambda>s.
     then_do (skip (s\<lparr>count := 0\<rparr>)) (\<lambda>s.
     then_do (skip (s\<lparr>arm_status := None\<rparr>)) (\<lambda>s.
     then_do (set_alarming None [0x00] s) (\<lambda>s.
     then_do
       (case fortress_socket s of
          Some sock \<Rightarrow>
            then_do (socket_shutdown sock s) (\<lambda>s.
            (s\<lparr>fortress_socket := None\<rparr>, [SocketClose], None))
        | None \<Rightarrow> skip s)
       clear_timers))))"

subsection \<open>Reading the events\<close>

text \<open>
  The calls of each handler, with their arguments, and the timer operations, in the order
  in which a run made them.
\<close>

fun alarm_calls :: "event list \<Rightarrow> (bool option \<times> int) list" where
  "alarm_calls [] = []"
| "alarm_calls (OnAlarmChange a z # es) = (a, z) # alarm_calls es"
| "alarm_calls (e # es) = alarm_calls es"

fun status_calls :: "event list \<Rightarrow> bytes list" where
  "status_calls [] = []"
| "status_calls (OnStatusChange st # es) = st # status_calls es"
| "status_calls (e # es) = status_calls es"

fun error_calls :: "event list \<Rightarrow> bool list" where
  "error_calls [] = []"
| "error_calls (OnErrorChange g # es) = g # error_calls es"
| "error_calls (e # es) = error_calls es"

fun timer_events :: "event list \<Rightarrow> event list" where
  "timer_events [] = []"
| "timer_events (TimerStart t # es) = TimerStart t # timer_events es"
| "timer_events (TimerCancel t # es) = TimerCancel t # timer_events es"
| "timer_events (e # es) = timer_events es"

section \<open>Basic facts\<close>

subsection \<open>Events and sequencing\<close>

lemma alarm_calls_append [simp]: "alarm_calls (xs @ ys) = alarm_calls xs @ alarm_calls ys"
  by (induction xs rule: alarm_calls.induct) simp_all
lemma status_calls_append [simp]: "status_calls (xs @ ys) = status_calls xs @ status_calls ys"
  by (induction xs rule: status_calls.induct) simp_all
lemma error_calls_append [simp]: "error_calls (xs @ ys) = error_calls xs @ error_calls ys"
  by (induction xs rule: error_calls.induct) simp_all
lemma timer_events_append [simp]: "timer_events (xs @ ys) = timer_events xs @ timer_events ys"
  by (induction xs rule: timer_events.induct) simp_all

lemma calls_of_cancel [simp]:
  "alarm_calls (case t of Some x \<Rightarrow> [TimerCancel x] | None \<Rightarrow> []) = []"
  "status_calls (case t of Some x \<Rightarrow> [TimerCancel x] | None \<Rightarrow> []) = []"
  "error_calls (case t of Some x \<Rightarrow> [TimerCancel x] | None \<Rightarrow> []) = []"
  "timer_events (case t of Some x \<Rightarrow> [TimerCancel x] | None \<Rightarrow> []) =
     (case t of Some x \<Rightarrow> [TimerCancel x] | None \<Rightarrow> [])"
  by (cases t; simp)+

lemma state_of_simp [simp]: "state_of (s, es, r) = s" by (simp add: state_of_def)
lemma events_of_simp [simp]: "events_of (s, es, r) = es" by (simp add: events_of_def)
lemma raised_simp [simp]: "raised (s, es, r) = r" by (simp add: raised_def)

lemma then_do_None [simp]: "then_do (s, es, None) f = (case f s of (s', es', r') \<Rightarrow> (s', es @ es', r'))"
  by (simp add: then_do_def)
lemma then_do_Some [simp]: "then_do (s, es, Some e) f = (s, es, Some e)"
  by (simp add: then_do_def)
lemma then_do_skip [simp]: "then_do (skip s) f = f s"
  by (simp add: skip_def split: prod.splits)

subsection \<open>The library functions on bytes\<close>

lemma uint8_range: "0 \<le> uint (b :: byte) \<and> uint b < 256"
  using uint_bounded [of b] by simp

lemma to_bin_char_uint8: "to_bin_char (uint (b :: byte)) = Inr (utf8_encode (uint b))"
  using uint8_range [of b] by (simp add: to_bin_char_def)

lemma utf8_encode_low: "b < 0x80 \<Longrightarrow> utf8_encode (uint (b :: byte)) = [b]"
  by (simp add: utf8_encode_def word_less_def)

lemma utf8_encode_high:
  "\<not> b < 0x80 \<Longrightarrow> utf8_encode (uint (b :: byte)) =
     [word_of_int (0xC0 + uint b div 64), word_of_int (0x80 + uint b mod 64)]"
  using uint8_range [of b] by (simp add: utf8_encode_def word_less_def)

lemma now_alarming_eq: "now_alarming data = Inr (data ! 181 = 0x01)"
proof (cases "data ! 181 < 0x80")
  case True
  then show ?thesis
    by (simp add: now_alarming_def to_bin_char_uint8 utf8_encode_low ALARMING_def)
next
  case False
  then have "data ! 181 \<noteq> 0x01" by auto
  with False show ?thesis
    by (simp add: now_alarming_def to_bin_char_uint8 utf8_encode_high ALARMING_def)
qed

lemma int_from_bytes_3:
  "int_from_bytes [a, b, c] = uint a * 65536 + uint b * 256 + uint c"
  by (simp add: int_from_bytes_def)

lemma slice_182: "length data = 182 \<Longrightarrow> slice data 10 13 = [data ! 10, data ! 11, data ! 12]"
proof -
  assume len: "length data = 182"
  have "take 3 (drop 10 data) = [drop 10 data ! 0, drop 10 data ! 1, drop 10 data ! 2]"
    using len by (simp add: list_eq_iff_nth_eq nth_Cons' numeral_3_eq_3 less_Suc_eq)
  then show ?thesis using len by (simp add: slice_def)
qed

lemma status_and_outlets_182:
  "length data = 182 \<Longrightarrow>
   status_and_outlets data = uint (data ! 10) * 65536 + uint (data ! 11) * 256 + uint (data ! 12)"
  by (simp add: status_and_outlets_def slice_182 int_from_bytes_3)

lemma int_from_bytes_snoc: "int_from_bytes (bs @ [b]) = int_from_bytes bs * 256 + uint b"
  by (simp add: int_from_bytes_def)

lemma int_from_bytes_bound: "0 \<le> int_from_bytes bs \<and> int_from_bytes bs < 256 ^ length bs"
proof (induction bs rule: rev_induct)
  case Nil
  show ?case by (simp add: int_from_bytes_def)
next
  case (snoc b bs)
  have "0 \<le> uint b" "uint b < 256" using uint8_range [of b] by simp_all
  with snoc show ?case by (simp add: int_from_bytes_snoc)
qed

lemma status_and_outlets_range:
  "0 \<le> status_and_outlets data \<and> status_and_outlets data < 2 ^ 24"
proof -
  let ?bs = "slice data 10 13"
  have len: "length ?bs \<le> 3" by (simp add: slice_def)
  have "int_from_bytes ?bs < 256 ^ length ?bs" using int_from_bytes_bound by blast
  also have "(256 :: int) ^ length ?bs \<le> 256 ^ 3"
    using len by (intro power_increasing) simp_all
  finally have "int_from_bytes ?bs < 2 ^ 24" by simp
  moreover have "0 \<le> int_from_bytes ?bs" using int_from_bytes_bound by blast
  ultimately show ?thesis by (simp add: status_and_outlets_def)
qed

lemma nibble_code_range:
  "0 \<le> push_bit 4 (drop_bit 20 (status_and_outlets data)) \<and>
   push_bit 4 (drop_bit 20 (status_and_outlets data)) \<le> 0xF0"
proof -
  let ?v = "status_and_outlets data"
  have "0 \<le> ?v" "?v < 2 ^ 24" using status_and_outlets_range [of data] by simp_all
  then have "0 \<le> ?v div 2 ^ 20" "?v div 2 ^ 20 < 16" by simp_all
  then show ?thesis by (simp add: push_bit_eq_mult drop_bit_eq_div)
qed

lemma latest_arm_status_eq:
  "latest_arm_status data =
     Inr (utf8_encode (push_bit 4 (drop_bit 20 (status_and_outlets data))))"
  using nibble_code_range [of data] by (simp add: latest_arm_status_def to_bin_char_def)

lemma zone_of_eq: "zone_of data = Inr (utf8_encode (uint (data ! 89)))"
  by (simp add: zone_of_def to_bin_char_uint8)

lemma top_nibble:
  assumes "length data = 182"
  shows "drop_bit 20 (status_and_outlets data) = uint (data ! 10) div 16"
proof -
  let ?a = "uint (data ! 10)" and ?b = "uint (data ! 11)" and ?c = "uint (data ! 12)"
  have b: "0 \<le> ?b" "?b < 256" and c: "0 \<le> ?c" "?c < 256"
    using uint8_range [of "data ! 11"] uint8_range [of "data ! 12"] by simp_all
  have v: "status_and_outlets data = ?a * 65536 + (?b * 256 + ?c)"
    using assms by (simp add: status_and_outlets_182)
  have r: "0 \<le> ?b * 256 + ?c" "?b * 256 + ?c < 65536" using b c by simp_all
  have "(?a * 65536 + (?b * 256 + ?c)) div 65536 = ?a"
    using r by simp
  moreover have "drop_bit 20 (status_and_outlets data) = status_and_outlets data div 65536 div 16"
    by (simp add: drop_bit_eq_div zdiv_zmult2_eq [symmetric])
  ultimately show ?thesis using v by simp
qed

lemma uint_word_of_int_byte: "0 \<le> k \<Longrightarrow> k < 256 \<Longrightarrow> uint (word_of_int k :: byte) = k"
  by (simp add: uint_word_of_int take_bit_eq_mod)

lemma zone_value:
  "zone_of data = Inr zone \<Longrightarrow>
   int_from_bytes zone =
     (if data ! 89 < 0x80 then uint (data ! 89)
      else 49280 + 256 * (uint (data ! 89) div 64) + uint (data ! 89) mod 64)"
proof -
  assume z: "zone_of data = Inr zone"
  let ?b = "data ! 89"
  have r: "0 \<le> uint ?b" "uint ?b < 256" using uint8_range [of ?b] by simp_all
  show ?thesis
  proof (cases "?b < 0x80")
    case True
    with z have "zone = [?b]" by (simp add: zone_of_eq utf8_encode_low)
    with True show ?thesis by (simp add: int_from_bytes_def)
  next
    case False
    have d: "0 \<le> uint ?b div 64 \<and> uint ?b div 64 < 4" using r by presburger
    have m: "0 \<le> uint ?b mod 64 \<and> uint ?b mod 64 < 64" by simp
    have u1: "uint (word_of_int (0xC0 + uint ?b div 64) :: byte) = 0xC0 + uint ?b div 64"
      using d by (intro uint_word_of_int_byte) linarith+
    have u2: "uint (word_of_int (0x80 + uint ?b mod 64) :: byte) = 0x80 + uint ?b mod 64"
      using m by (intro uint_word_of_int_byte) linarith+
    from z False have "zone = [word_of_int (0xC0 + uint ?b div 64), word_of_int (0x80 + uint ?b mod 64)]"
      by (simp add: zone_of_eq utf8_encode_high)
    then show ?thesis using False u1 u2 by (simp add: int_from_bytes_def)
  qed
qed

lemma find_from_sublist:
  "0 \<le> i \<Longrightarrow> find_from i data sub \<noteq> - 1 \<longleftrightarrow> sublist sub data"
proof (induction data arbitrary: i)
  case Nil
  then show ?case by auto
next
  case (Cons x xs)
  from Cons.prems have "0 \<le> i + 1" by simp
  then have "find_from (i + 1) xs sub \<noteq> - 1 \<longleftrightarrow> sublist sub xs" by (rule Cons.IH)
  with Cons.prems show ?case by (auto simp: sublist_Cons_right)
qed

lemma bytes_find_sublist: "bytes_find data sub \<noteq> - 1 \<longleftrightarrow> sublist sub data"
  by (simp add: bytes_find_def find_from_sublist)

subsection \<open>What each helper method returns\<close>

lemma set_all_good_eq:
  "set_all_good g s = (s\<lparr>all_good := g\<rparr>, if onErrorChange s then [OnErrorChange g] else [], None)"
  by (simp add: set_all_good_def)

lemma set_alarming_eq:
  "set_alarming a z s =
     (s\<lparr>alarming := a\<rparr>, if onAlarmChange s then [OnAlarmChange a (int_from_bytes z)] else [], None)"
  by (simp add: set_alarming_def)

lemma set_arm_status_eq:
  "set_arm_status st s =
     (s\<lparr>arm_status := Some st\<rparr>, if onStatusChange s then [OnStatusChange st] else [], None)"
  by (simp add: set_arm_status_def)

lemma cancel_timeout_timer_eq:
  "cancel_timeout_timer s =
     (s\<lparr>timeout_timer := None\<rparr>,
      case timeout_timer s of Some t \<Rightarrow> [TimerCancel t] | None \<Rightarrow> [], None)"
  by (simp add: cancel_timeout_timer_def skip_def split: option.splits)

lemma cancel_heartbeat_timer_eq:
  "cancel_heartbeat_timer s =
     (s\<lparr>heartbeat_timer := None\<rparr>,
      case heartbeat_timer s of Some t \<Rightarrow> [TimerCancel t] | None \<Rightarrow> [], None)"
  by (simp add: cancel_heartbeat_timer_def skip_def split: option.splits)

lemma clear_timers_eq:
  "clear_timers s =
     (s\<lparr>timeout_timer := None, heartbeat_timer := None\<rparr>,
      (case timeout_timer s of Some t \<Rightarrow> [TimerCancel t] | None \<Rightarrow> []) @
      (case heartbeat_timer s of Some t \<Rightarrow> [TimerCancel t] | None \<Rightarrow> []), None)"
  by (simp add: clear_timers_def cancel_timeout_timer_eq cancel_heartbeat_timer_eq)

lemma reschedule_reconnect_eq:
  "reschedule_reconnect s =
     (s\<lparr>timeout_timer := Some (Timer 9 (Reconnect []))\<rparr>,
      (case timeout_timer s of Some t \<Rightarrow> [TimerCancel t] | None \<Rightarrow> []) @
      [TimerStart (Timer 9 (Reconnect []))], None)"
  by (simp add: reschedule_reconnect_def cancel_timeout_timer_eq start_timeout_timer_def
      TIMEOUT_AFTER_def)

lemma reschedule_reconnect_asap_eq:
  "reschedule_reconnect_asap s =
     (s\<lparr>all_good := False, timeout_timer := Some (Timer 3 (Reconnect ''...AFTER EXCEPTION'')),
        heartbeat_timer := None\<rparr>,
      (if onErrorChange s then [OnErrorChange False] else []) @
      (case timeout_timer s of Some t \<Rightarrow> [TimerCancel t] | None \<Rightarrow> []) @
      (case heartbeat_timer s of Some t \<Rightarrow> [TimerCancel t] | None \<Rightarrow> []) @
      [TimerStart (Timer 3 (Reconnect ''...AFTER EXCEPTION''))], None)"
  by (simp add: reschedule_reconnect_asap_def set_all_good_eq clear_timers_eq
      start_timeout_timer_def RETRY_AFTER_ERROR_def)

lemma send_to_socket_eq:
  "send_to_socket msg s =
     (s, if fortress_socket s = None then [] else [SocketSend msg],
      if fortress_socket s = None then Some AttributeError else None)"
  by (simp add: send_to_socket_def split: option.splits)

lemma send_heartbeat_eq:
  "send_heartbeat s =
     (s\<lparr>count := count s + 1\<rparr>, if fortress_socket s = None then [] else [SocketSend HEARTBEAT],
      if fortress_socket s = None then Some AttributeError else None)"
  by (simp add: send_heartbeat_def send_to_socket_eq)

lemma tear_down_eq:
  "tear_down s =
     (if fortress_socket s = Some (Socket False)
      then (s\<lparr>all_good := False, count := 0, arm_status := None, alarming := None\<rparr>,
            (if onErrorChange s then [OnErrorChange False] else []) @
            (if onAlarmChange s then [OnAlarmChange None 0] else []), Some OSError)
      else (s\<lparr>all_good := False, count := 0, arm_status := None, alarming := None,
              fortress_socket := None, timeout_timer := None, heartbeat_timer := None\<rparr>,
            (if onErrorChange s then [OnErrorChange False] else []) @
            (if onAlarmChange s then [OnAlarmChange None 0] else []) @
            (case fortress_socket s of Some sock \<Rightarrow> [SocketShutdown, SocketClose] | None \<Rightarrow> []) @
            (case timeout_timer s of Some t \<Rightarrow> [TimerCancel t] | None \<Rightarrow> []) @
            (case heartbeat_timer s of Some t \<Rightarrow> [TimerCancel t] | None \<Rightarrow> []), None))"
proof (cases "fortress_socket s")
  case None
  then show ?thesis
    by (simp add: tear_down_def set_all_good_eq set_alarming_eq clear_timers_eq skip_def
        int_from_bytes_def)
next
  case (Some sock)
  show ?thesis
  proof (cases sock)
    case (Socket c)
    with Some show ?thesis
      by (cases c)
        (simp_all add: tear_down_def set_all_good_eq set_alarming_eq clear_timers_eq skip_def
          socket_shutdown_def int_from_bytes_def)
  qed
qed

subsection \<open>What \<^verbatim>\<open>_process_update\<close> returns\<close>

lemma process_update_182:
  assumes "length data = 182"
    and "now_alarming data = Inr now"
    and "latest_arm_status data = Inr latest"
    and "zone_of data = Inr zone"
  shows "process_update data s =
     (s\<lparr>timeout_timer :=
          if sublist HEARTBEAT_ACK data then Some (Timer 9 (Reconnect [])) else timeout_timer s,
        arm_status := Some latest,
        alarming :=
          if Some now \<noteq> alarming s \<and> (alarming s \<noteq> Some True \<or> latest = DISARM)
          then Some now else alarming s\<rparr>,
      (if sublist HEARTBEAT_ACK data
       then (case timeout_timer s of Some t \<Rightarrow> [TimerCancel t] | None \<Rightarrow> []) @
            [TimerStart (Timer 9 (Reconnect []))]
       else []) @
      (if Some latest \<noteq> arm_status s \<and> onStatusChange s then [OnStatusChange latest] else []) @
      (if Some now \<noteq> alarming s \<and> (alarming s \<noteq> Some True \<or> latest = DISARM) \<and>
          onAlarmChange s
       then [OnAlarmChange (Some now) (int_from_bytes zone)] else []),
      None)"
proof -
  have ne: "data \<noteq> []" using assms(1) by auto
  show ?thesis
    using assms ne
    by (simp add: process_update_def bytes_find_sublist reschedule_reconnect_eq skip_def
        set_arm_status_eq set_alarming_eq)
qed

lemma process_update_other:
  assumes "data \<noteq> []" and "length data \<noteq> 182"
    and "length data = 8 \<or> data = CONNECTION_IS_BOUND"
  shows "process_update data s =
     (if sublist HEARTBEAT_ACK data then reschedule_reconnect s else (s, [], None))"
  using assms by (auto simp: process_update_def bytes_find_sublist skip_def reschedule_reconnect_eq)

lemma process_update_invalid:
  "data = [] \<or> (length data \<noteq> 182 \<and> length data \<noteq> 8 \<and> data \<noteq> CONNECTION_IS_BOUND) \<Longrightarrow>
   process_update data s = reschedule_reconnect_asap s"
  by (simp add: process_update_def)

lemma process_update_calls:
  "(\<forall>st \<in> set (status_calls (events_of (process_update data s))). Some st \<noteq> arm_status s) \<and>
   (\<forall>c \<in> set (alarm_calls (events_of (process_update data s))). fst c \<noteq> alarming s)"
proof (cases "data = [] \<or> (length data \<noteq> 182 \<and> length data \<noteq> 8 \<and> data \<noteq> CONNECTION_IS_BOUND)")
  case True
  then show ?thesis
    by (simp add: process_update_invalid reschedule_reconnect_asap_eq)
next
  case valid: False
  show ?thesis
  proof (cases "length data = 182")
    case True
    show ?thesis
      by (simp add: process_update_182 [OF True now_alarming_eq latest_arm_status_eq zone_of_eq])
  next
    case False
    with valid have "data \<noteq> []" "length data = 8 \<or> data = CONNECTION_IS_BOUND" by auto
    from process_update_other [OF this(1) False this(2)] show ?thesis
      by (simp add: reschedule_reconnect_eq)
  qed
qed

lemma process_update_returns: "raised (process_update data s) = None"
proof (cases "data = [] \<or> (length data \<noteq> 182 \<and> length data \<noteq> 8 \<and> data \<noteq> CONNECTION_IS_BOUND)")
  case True
  then show ?thesis
    by (simp add: process_update_invalid reschedule_reconnect_asap_eq)
next
  case valid: False
  show ?thesis
  proof (cases "length data = 182")
    case True
    show ?thesis
      by (simp add: process_update_182 [OF True now_alarming_eq latest_arm_status_eq zone_of_eq])
  next
    case False
    with valid have "data \<noteq> []" "length data = 8 \<or> data = CONNECTION_IS_BOUND" by auto
    from process_update_other [OF this(1) False this(2)] show ?thesis
      by (simp add: reschedule_reconnect_eq)
  qed
qed

lemma process_update_error_calls:
  "error_calls (events_of (process_update data s)) =
     (if (data = [] \<or> (length data \<noteq> 182 \<and> length data \<noteq> 8 \<and> data \<noteq> CONNECTION_IS_BOUND)) \<and>
         onErrorChange s
      then [False] else [])"
proof (cases "data = [] \<or> (length data \<noteq> 182 \<and> length data \<noteq> 8 \<and> data \<noteq> CONNECTION_IS_BOUND)")
  case True
  then show ?thesis
    by (simp add: process_update_invalid reschedule_reconnect_asap_eq)
next
  case valid: False
  show ?thesis
  proof (cases "length data = 182")
    case True
    have "error_calls (events_of (process_update data s)) = []"
      by (simp add: process_update_182 [OF True now_alarming_eq latest_arm_status_eq zone_of_eq])
    with valid show ?thesis by auto
  next
    case False
    with valid have "data \<noteq> []" "length data = 8 \<or> data = CONNECTION_IS_BOUND" by auto
    from process_update_other [OF this(1) False this(2)]
    have "error_calls (events_of (process_update data s)) = []"
      by (simp add: reschedule_reconnect_eq)
    with valid show ?thesis by auto
  qed
qed

lemma process_update_alarm_scenarios:
  assumes "length data = 182"
    and "now_alarming data = Inr now"
    and "latest_arm_status data = Inr latest"
    and "zone_of data = Inr zone"
  shows "int_from_bytes zone =
           (if data ! 89 < 0x80 then uint (data ! 89)
            else 49280 + 256 * (uint (data ! 89) div 64) + uint (data ! 89) mod 64) \<and>
         (alarming s = Some False \<and> arm_status s = Some ARM \<and> \<not> now \<longrightarrow>
            alarm_calls (events_of (process_update data s)) = [] \<and>
            alarming (state_of (process_update data s)) = Some False) \<and>
         (alarming s = Some False \<and> arm_status s = Some ARM \<and> now \<longrightarrow>
            alarming (state_of (process_update data s)) = Some True \<and>
            alarm_calls (events_of (process_update data s)) =
              (if onAlarmChange s then [(Some True, int_from_bytes zone)] else [])) \<and>
         (alarming s = Some True \<and> \<not> now \<longrightarrow>
            (if latest = DISARM
             then alarming (state_of (process_update data s)) = Some False \<and>
                  alarm_calls (events_of (process_update data s)) =
                    (if onAlarmChange s then [(Some False, int_from_bytes zone)] else [])
             else alarming (state_of (process_update data s)) = Some True \<and>
                  alarm_calls (events_of (process_update data s)) = []))"
  using zone_value [OF assms(4)] by (simp add: process_update_182 [OF assms])

section \<open>The claims\<close>

subsection \<open>C1: the alarm-change guard\<close>

text \<open>
  C1, as the claim states it, fails. The claim accepts a change of the alarming flag when the
  stored flag is true or the frame decodes to Disarmed. The guard of \<^verbatim>\<open>_process_update\<close> is
  \<^verbatim>\<open>not self.alarming or latest_arm_status == DISARM\<close>. With the stored flag false and an
  Armed frame that reports an alarm, neither condition of the claim holds, yet the flag is set
  and the handler called; with the stored flag true and an Armed frame that reports no alarm,
  condition (a) of the claim holds, yet the frame is ignored.
\<close>

theorem C1_counterexample:
  "now_alarming (replicate 181 0 @ [1]) = Inr True \<and>
   latest_arm_status (replicate 181 0 @ [1]) = Inr ARM \<and> ARM \<noteq> DISARM \<and>
   process_update (replicate 181 0 @ [1])
       (init\<lparr>arm_status := Some ARM, alarming := Some False, onAlarmChange := True\<rparr>) =
     (init\<lparr>arm_status := Some ARM, alarming := Some True, onAlarmChange := True\<rparr>,
      [OnAlarmChange (Some True) 0], None) \<and>
   now_alarming (replicate 182 0) = Inr False \<and>
   latest_arm_status (replicate 182 0) = Inr ARM \<and>
   process_update (replicate 182 0)
       (init\<lparr>arm_status := Some ARM, alarming := Some True, onAlarmChange := True\<rparr>) =
     (init\<lparr>arm_status := Some ARM, alarming := Some True, onAlarmChange := True\<rparr>, [], None)"
  by code_simp

text \<open>
  C1, amended: for a frame of 182 bytes whose decoded alarming flag differs from the stored
  one, the change is accepted (the stored flag becomes the decoded one and \<^verbatim>\<open>onAlarmChange\<close>,
  if set, is called once with the decoded flag and zone) if and only if the stored flag is not
  true (false or unset) or the status decoded from the same frame is Disarmed; otherwise the
  stored flag is unchanged and \<^verbatim>\<open>onAlarmChange\<close> is not called.
\<close>

theorem C1_alarm_guard:
  assumes "length data = 182"
    and "now_alarming data = Inr now"
    and "latest_arm_status data = Inr latest"
    and "zone_of data = Inr zone"
    and "Some now \<noteq> alarming s"
  shows "if alarming s \<noteq> Some True \<or> latest = DISARM
         then alarming (state_of (process_update data s)) = Some now \<and>
              alarm_calls (events_of (process_update data s)) =
                (if onAlarmChange s then [(Some now, int_from_bytes zone)] else [])
         else alarming (state_of (process_update data s)) = alarming s \<and>
              alarm_calls (events_of (process_update data s)) = []"
  using assms(5) by (simp add: process_update_182 [OF assms(1-4)] split: option.splits)

text \<open>
  C1 amended, on an Armed frame that reports an alarm to a fresh client (accepted) and on an
  Armed frame that reports none while an alarm is stored (ignored).
\<close>

theorem C1_alarm_guard_witness:
  "alarming (state_of (process_update (replicate 181 0 @ [1]) (init\<lparr>onAlarmChange := True\<rparr>)))
     = Some True \<and>
   alarm_calls (events_of (process_update (replicate 181 0 @ [1]) (init\<lparr>onAlarmChange := True\<rparr>)))
     = [(Some True, 0)] \<and>
   alarming (state_of (process_update (replicate 182 0)
       (init\<lparr>alarming := Some True, onAlarmChange := True\<rparr>))) = Some True \<and>
   alarm_calls (events_of (process_update (replicate 182 0)
       (init\<lparr>alarming := Some True, onAlarmChange := True\<rparr>))) = []"
proof -
  have a1: "length (replicate 181 0 @ [1 :: byte]) = 182" by simp
  have a2: "now_alarming (replicate 181 0 @ [1]) = Inr True" by code_simp
  have a3: "latest_arm_status (replicate 181 0 @ [1]) = Inr ARM" by code_simp
  have a4: "zone_of (replicate 181 0 @ [1]) = Inr [0]" by code_simp
  have a5: "Some True \<noteq> alarming (init\<lparr>onAlarmChange := True\<rparr>)" by (simp add: init_def)
  have b1: "length (replicate 182 (0 :: byte)) = 182" by simp
  have b2: "now_alarming (replicate 182 0) = Inr False" by code_simp
  have b3: "latest_arm_status (replicate 182 0) = Inr ARM" by code_simp
  have b4: "zone_of (replicate 182 0) = Inr [0]" by code_simp
  have b5: "Some False \<noteq> alarming (init\<lparr>alarming := Some True, onAlarmChange := True\<rparr>)"
    by simp
  show ?thesis
    using C1_alarm_guard [OF a1 a2 a3 a4 a5] C1_alarm_guard [OF b1 b2 b3 b4 b5]
    by (simp add: init_def ARM_def DISARM_def int_from_bytes_def)
qed

subsection \<open>C2: the alarm scenarios\<close>

text \<open>
  C2 fails on the code in its second scenario, where the handler is to be called with the
  alarm flag and the zone of the frame. The stored flag is false and the stored status Armed;
  the frame reports an alarm in zone \<open>0xFF\<close>. The flag is set, as the claim says, but the zone
  goes through \<^verbatim>\<open>_to_bin_char\<close> and comes back as 50111, the two bytes \<open>0xC3 0xBF\<close> read as a
  number, where the frame says zone 255. The defect is the one of C4. What the guard does in
  the scenarios of the claim is lemma \<open>process_update_alarm_scenarios\<close>: the claim holds as
  stated for every zone byte below \<open>0x80\<close>.
\<close>

theorem C2_alarm_high_zone:
  "length (replicate 89 0 @ [0xFF] @ replicate 91 0 @ [0x01 :: byte]) = 182 \<and>
   now_alarming (replicate 89 0 @ [0xFF] @ replicate 91 0 @ [0x01]) = Inr True \<and>
   uint ((replicate 89 0 @ [0xFF] @ replicate 91 0 @ [0x01 :: byte]) ! 89) = 255 \<and>
   process_update (replicate 89 0 @ [0xFF] @ replicate 91 0 @ [0x01])
       (init\<lparr>all_good := True, fortress_socket := Some (Socket True),
          arm_status := Some ARM, alarming := Some False,
          onStatusChange := True, onErrorChange := True, onAlarmChange := True\<rparr>) =
     (init\<lparr>all_good := True, fortress_socket := Some (Socket True),
        arm_status := Some ARM, alarming := Some True,
        onStatusChange := True, onErrorChange := True, onAlarmChange := True\<rparr>,
      [OnAlarmChange (Some True) 50111], None)"
  by code_simp

text \<open>
  The one call the alarm handler receives at that frame, read off the events.
\<close>

theorem C2_alarm_high_zone_witness:
  "alarm_calls (events_of (process_update (replicate 89 0 @ [0xFF] @ replicate 91 0 @ [0x01])
       (init\<lparr>all_good := True, fortress_socket := Some (Socket True),
          arm_status := Some ARM, alarming := Some False,
          onStatusChange := True, onErrorChange := True, onAlarmChange := True\<rparr>))) =
     [(Some True, 50111)]"
  using C2_alarm_high_zone by simp

subsection \<open>C3: the arm status of a frame\<close>

text \<open>
  C3: for a frame of 182 bytes, bytes 10 to 12 are read as a 24-bit big-endian integer, whose
  top four bits (the integer shifted right by 20, the high nibble of byte 10) give the
  status: 0 is Armed, 1 is Disarmed, 2 is Stay-armed, and the nibble shifted left by 4 is the
  one-byte command code \<open>0x00\<close>, \<open>0x10\<close>, \<open>0x20\<close>. The three byte patterns of the
  specification decode accordingly, and the decoded status is the one the client stores.
\<close>

theorem C3_arm_status_decode:
  assumes "length data = 182"
  shows "status_and_outlets data =
           uint (data ! 10) * 65536 + uint (data ! 11) * 256 + uint (data ! 12) \<and>
         drop_bit 20 (status_and_outlets data) = uint (data ! 10) div 16 \<and>
         (drop_bit 20 (status_and_outlets data) = 0 \<longrightarrow> latest_arm_status data = Inr ARM) \<and>
         (drop_bit 20 (status_and_outlets data) = 1 \<longrightarrow> latest_arm_status data = Inr DISARM) \<and>
         (drop_bit 20 (status_and_outlets data) = 2 \<longrightarrow> latest_arm_status data = Inr STAY_ARM) \<and>
         (drop_bit 20 (status_and_outlets data) \<in> {0, 1, 2} \<longrightarrow>
            latest_arm_status data =
              Inr [word_of_int (push_bit 4 (drop_bit 20 (status_and_outlets data)))]) \<and>
         ARM = [0x00] \<and> DISARM = [0x10] \<and> STAY_ARM = [0x20] \<and>
         (slice data 10 13 = [0x10, 0x00, 0x00] \<longrightarrow> latest_arm_status data = Inr DISARM) \<and>
         (slice data 10 13 = [0x00, 0x00, 0x00] \<longrightarrow> latest_arm_status data = Inr ARM) \<and>
         (slice data 10 13 = [0x20, 0x00, 0x00] \<longrightarrow> latest_arm_status data = Inr STAY_ARM) \<and>
         (\<forall>latest. latest_arm_status data = Inr latest \<longrightarrow>
            arm_status (state_of (process_update data s)) = Some latest)"
proof -
  let ?k = "drop_bit 20 (status_and_outlets data)"
  have k: "?k \<in> {0, 1, 2} \<Longrightarrow> latest_arm_status data = Inr [word_of_int (push_bit 4 ?k)]"
    by (auto simp: latest_arm_status_eq utf8_encode_def)
  have s1: "slice data 10 13 = [0x10, 0x00, 0x00] \<Longrightarrow> ?k = 1"
    by (simp add: status_and_outlets_def int_from_bytes_3 drop_bit_eq_div)
  have s0: "slice data 10 13 = [0x00, 0x00, 0x00] \<Longrightarrow> ?k = 0"
    by (simp add: status_and_outlets_def int_from_bytes_3 drop_bit_eq_div)
  have s2: "slice data 10 13 = [0x20, 0x00, 0x00] \<Longrightarrow> ?k = 2"
    by (simp add: status_and_outlets_def int_from_bytes_3 drop_bit_eq_div)
  have st: "latest_arm_status data = Inr latest \<Longrightarrow>
            arm_status (state_of (process_update data s)) = Some latest" for latest
    using process_update_182 [OF assms now_alarming_eq _ zone_of_eq, of latest s] by simp
  show ?thesis
    using k s0 s1 s2 st assms top_nibble [OF assms]
    by (auto simp: status_and_outlets_182 ARM_def DISARM_def STAY_ARM_def)
qed

text \<open>
  C3 on three frames that differ in byte 10 only.
\<close>

theorem C3_arm_status_decode_witness:
  "latest_arm_status (replicate 10 0 @ [0x10, 0x00, 0x00] @ replicate 169 0) = Inr DISARM \<and>
   latest_arm_status (replicate 10 0 @ [0x00, 0x00, 0x00] @ replicate 169 0) = Inr ARM \<and>
   latest_arm_status (replicate 10 0 @ [0x20, 0x00, 0x00] @ replicate 169 0) = Inr STAY_ARM \<and>
   arm_status (state_of (process_update (replicate 10 0 @ [0x10, 0x00, 0x00] @ replicate 169 0) init))
     = Some DISARM"
proof -
  let ?d = "replicate 10 0 @ [0x10, 0x00, 0x00] @ replicate 169 (0 :: byte)"
  let ?a = "replicate 10 0 @ [0x00, 0x00, 0x00] @ replicate 169 (0 :: byte)"
  let ?s = "replicate 10 0 @ [0x20, 0x00, 0x00] @ replicate 169 (0 :: byte)"
  have len: "length ?d = 182" "length ?a = 182" "length ?s = 182" by simp_all
  have sl: "slice ?d 10 13 = [0x10, 0x00, 0x00]" "slice ?a 10 13 = [0x00, 0x00, 0x00]"
    "slice ?s 10 13 = [0x20, 0x00, 0x00]"
    by (simp_all add: slice_def)
  have d: "latest_arm_status ?d = Inr DISARM"
    using C3_arm_status_decode [OF len(1), of init] sl(1) by blast
  have a: "latest_arm_status ?a = Inr ARM"
    using C3_arm_status_decode [OF len(2), of init] sl(2) by blast
  have s: "latest_arm_status ?s = Inr STAY_ARM"
    using C3_arm_status_decode [OF len(3), of init] sl(3) by blast
  have "arm_status (state_of (process_update ?d init)) = Some DISARM"
    using C3_arm_status_decode [OF len(1), of init] d by blast
  with d a s show ?thesis by blast
qed

subsection \<open>C4: the zone passed to the alarm handler\<close>

text \<open>
  C4 fails on the code for a zone byte of \<open>0x80\<close> or more. The zone goes through
  \<^verbatim>\<open>_to_bin_char\<close>, which encodes the code point in UTF-8, and back through
  \<^verbatim>\<open>int.from_bytes\<close>: byte \<open>0x80\<close> becomes the two bytes \<open>0xC2 0x80\<close> and the handler
  receives 49792 where the frame says zone 128. Below \<open>0x80\<close> the handler receives the
  byte's value (lemma \<open>zone_value\<close>).
\<close>

theorem C4_zone_of_high_byte:
  "length (replicate 89 0 @ [0x80] @ replicate 91 0 @ [0x01 :: byte]) = 182 \<and>
   uint ((replicate 89 0 @ [0x80] @ replicate 91 0 @ [0x01 :: byte]) ! 89) = 128 \<and>
   process_update (replicate 89 0 @ [0x80] @ replicate 91 0 @ [0x01])
       (init\<lparr>arm_status := Some ARM, alarming := Some False, onAlarmChange := True\<rparr>) =
     (init\<lparr>arm_status := Some ARM, alarming := Some True, onAlarmChange := True\<rparr>,
      [OnAlarmChange (Some True) 49792], None)"
  by code_simp

text \<open>
  The call the alarm handler receives at that frame, read off the events.
\<close>

theorem C4_zone_of_high_byte_witness:
  "alarm_calls (events_of (process_update (replicate 89 0 @ [0x80] @ replicate 91 0 @ [0x01])
       (init\<lparr>arm_status := Some ARM, alarming := Some False, onAlarmChange := True\<rparr>))) =
     [(Some True, 49792)]"
  using C4_zone_of_high_byte by simp

subsection \<open>C5: payloads that are no frame\<close>

text \<open>
  C5: a payload whose length is neither 182 nor 8 and that is not the bind acknowledgement
  (the empty read of a closed connection included) takes the immediate-error path: the health
  flag becomes false, both timers are cancelled and cleared, one timer of 3 time units is
  started for the reconnect, and nothing of the payload is decoded: status and alarming flag
  stay as they were and neither of their handlers is called.
\<close>

theorem C5_protocol_violation:
  assumes "length data \<noteq> 182" and "length data \<noteq> 8" and "data \<noteq> CONNECTION_IS_BOUND"
  shows "process_update data s = reschedule_reconnect_asap s \<and>
         all_good (state_of (process_update data s)) = False \<and>
         heartbeat_timer (state_of (process_update data s)) = None \<and>
         timeout_timer (state_of (process_update data s)) =
           Some (Timer RETRY_AFTER_ERROR (Reconnect ''...AFTER EXCEPTION'')) \<and>
         RETRY_AFTER_ERROR = 3 \<and>
         timer_events (events_of (process_update data s)) =
           (case timeout_timer s of Some t \<Rightarrow> [TimerCancel t] | None \<Rightarrow> []) @
           (case heartbeat_timer s of Some t \<Rightarrow> [TimerCancel t] | None \<Rightarrow> []) @
           [TimerStart (Timer RETRY_AFTER_ERROR (Reconnect ''...AFTER EXCEPTION''))] \<and>
         error_calls (events_of (process_update data s)) =
           (if onErrorChange s then [False] else []) \<and>
         arm_status (state_of (process_update data s)) = arm_status s \<and>
         alarming (state_of (process_update data s)) = alarming s \<and>
         status_calls (events_of (process_update data s)) = [] \<and>
         alarm_calls (events_of (process_update data s)) = [] \<and>
         raised (process_update data s) = None"
proof -
  have "process_update data s = reschedule_reconnect_asap s"
    using assms by (simp add: process_update_def)
  then show ?thesis
    by (simp add: reschedule_reconnect_asap_eq RETRY_AFTER_ERROR_def)
qed

text \<open>
  C5 at the empty read, on a connected client with both timers running.
\<close>

theorem C5_protocol_violation_witness:
  "process_update [] (init\<lparr>all_good := True, onErrorChange := True,
       timeout_timer := Some (Timer 9 (Reconnect [])),
       heartbeat_timer := Some (RepeatingTimer 4 SendHeartbeat)\<rparr>) =
     (init\<lparr>all_good := False, onErrorChange := True,
        timeout_timer := Some (Timer 3 (Reconnect ''...AFTER EXCEPTION'')),
        heartbeat_timer := None\<rparr>,
      [OnErrorChange False, TimerCancel (Timer 9 (Reconnect [])),
       TimerCancel (RepeatingTimer 4 SendHeartbeat),
       TimerStart (Timer 3 (Reconnect ''...AFTER EXCEPTION''))], None)"
proof -
  have h: "length ([] :: bytes) \<noteq> 182" "length ([] :: bytes) \<noteq> 8" "[] \<noteq> CONNECTION_IS_BOUND"
    by (simp_all add: CONNECTION_IS_BOUND_def)
  show ?thesis
    using C5_protocol_violation [OF h, of "init\<lparr>all_good := True, onErrorChange := True,
       timeout_timer := Some (Timer 9 (Reconnect [])),
       heartbeat_timer := Some (RepeatingTimer 4 SendHeartbeat)\<rparr>"]
    by (simp add: reschedule_reconnect_asap_eq init_def)
qed

subsection \<open>C6: a heartbeat acknowledgement rearms the deadline\<close>

text \<open>
  C6: a buffer that passes validation and holds the acknowledgement literal anywhere inside
  rearms the liveness deadline: the pending timeout timer, if any, is cancelled, and a new one
  of 9 time units is started and stored. The heartbeat timer is left alone.
\<close>

theorem C6_heartbeat_ack_rearms:
  assumes "data \<noteq> []"
    and "length data = 182 \<or> length data = 8 \<or> data = CONNECTION_IS_BOUND"
    and "sublist HEARTBEAT_ACK data"
  shows "timeout_timer (state_of (process_update data s)) =
           Some (Timer TIMEOUT_AFTER (Reconnect [])) \<and>
         TIMEOUT_AFTER = 9 \<and>
         timer_events (events_of (process_update data s)) =
           (case timeout_timer s of Some t \<Rightarrow> [TimerCancel t] | None \<Rightarrow> []) @
           [TimerStart (Timer TIMEOUT_AFTER (Reconnect []))] \<and>
         heartbeat_timer (state_of (process_update data s)) = heartbeat_timer s \<and>
         raised (process_update data s) = None"
proof (cases "length data = 182")
  case True
  show ?thesis
    using assms(3)
    by (simp add: process_update_182 [OF True now_alarming_eq latest_arm_status_eq zone_of_eq]
        TIMEOUT_AFTER_def)
next
  case False
  with assms(2) have "length data = 8 \<or> data = CONNECTION_IS_BOUND" by simp
  from process_update_other [OF assms(1) False this] assms(3)
  show ?thesis by (simp add: reschedule_reconnect_eq TIMEOUT_AFTER_def)
qed

text \<open>
  C6 on a status frame with the literal at offset 100, and on the literal alone.
\<close>

theorem C6_heartbeat_ack_rearms_witness:
  "sublist HEARTBEAT_ACK (replicate 100 0 @ HEARTBEAT_ACK @ replicate 74 0) \<and>
   timeout_timer (state_of (process_update (replicate 100 0 @ HEARTBEAT_ACK @ replicate 74 0)
       (init\<lparr>timeout_timer := Some (Timer 3 (Reconnect ''...AFTER EXCEPTION''))\<rparr>)))
     = Some (Timer 9 (Reconnect [])) \<and>
   timer_events (events_of (process_update (replicate 100 0 @ HEARTBEAT_ACK @ replicate 74 0)
       (init\<lparr>timeout_timer := Some (Timer 3 (Reconnect ''...AFTER EXCEPTION''))\<rparr>)))
     = [TimerCancel (Timer 3 (Reconnect ''...AFTER EXCEPTION'')),
        TimerStart (Timer 9 (Reconnect []))] \<and>
   timeout_timer (state_of (process_update HEARTBEAT_ACK init)) = Some (Timer 9 (Reconnect []))"
proof -
  let ?d = "replicate 100 0 @ HEARTBEAT_ACK @ replicate 74 0"
  have a1: "?d \<noteq> []" by simp
  have a2: "length ?d = 182 \<or> length ?d = 8 \<or> ?d = CONNECTION_IS_BOUND"
    by (simp add: HEARTBEAT_ACK_def)
  have a3: "sublist HEARTBEAT_ACK ?d" by simp
  have b1: "HEARTBEAT_ACK \<noteq> []" by (simp add: HEARTBEAT_ACK_def)
  have b2: "length HEARTBEAT_ACK = 182 \<or> length HEARTBEAT_ACK = 8 \<or>
            HEARTBEAT_ACK = CONNECTION_IS_BOUND"
    by (simp add: HEARTBEAT_ACK_def)
  have b3: "sublist HEARTBEAT_ACK HEARTBEAT_ACK" by simp
  show ?thesis
    using C6_heartbeat_ack_rearms [OF a1 a2 a3,
        of "init\<lparr>timeout_timer := Some (Timer 3 (Reconnect ''...AFTER EXCEPTION''))\<rparr>"]
      C6_heartbeat_ack_rearms [OF b1 b2 b3, of init] a3
    by simp
qed

subsection \<open>C7: the command frame\<close>

text \<open>
  C7: on a client with an open socket, \<^verbatim>\<open>sendCommand\<close> with a one-byte code hands the socket
  exactly one buffer of 92 bytes: the 13 bytes of the header, the code, 78 zero bytes. For
  Arm the code byte is \<open>0x00\<close>.
\<close>

theorem C7_send_command:
  assumes "fortress_socket s \<noteq> None" and "length msg = 1"
  shows "sendCommand msg s = (s, [SocketSend (COMMAND @ msg @ replicate 78 0x00)], None) \<and>
         length (COMMAND @ msg @ replicate 78 0x00) = 92 \<and>
         length COMMAND = 13 \<and>
         take 13 (COMMAND @ msg @ replicate 78 0x00) = COMMAND \<and>
         (COMMAND @ msg @ replicate 78 0x00) ! 13 = msg ! 0 \<and>
         drop 14 (COMMAND @ msg @ replicate 78 0x00) = replicate 78 0x00 \<and>
         sendCommand ARM s = (s, [SocketSend (COMMAND @ [0x00] @ replicate 78 0x00)], None)"
proof -
  have c: "length COMMAND = 13" by (simp add: COMMAND_def)
  from assms(1) obtain sock where "fortress_socket s = Some sock" by auto
  then have "sendCommand m s = (s, [SocketSend (COMMAND @ m @ replicate 78 0x00)], None)" for m
    by (simp add: sendCommand_def send_to_socket_def)
  then show ?thesis using c assms(2) by (simp add: ARM_def nth_append)
qed

text \<open>
  C7 for Disarm and Arm, with the header written out.
\<close>

theorem C7_send_command_witness:
  "sendCommand DISARM (init\<lparr>fortress_socket := Some (Socket True)\<rparr>) =
     (init\<lparr>fortress_socket := Some (Socket True)\<rparr>,
      [SocketSend ([0x00, 0x00, 0x00, 0x03, 0x57, 0x00, 0x00, 0x90, 0x01, 0x00, 0x10, 0x00, 0x00]
                   @ [0x10] @ replicate 78 0x00)], None) \<and>
   sendCommand ARM (init\<lparr>fortress_socket := Some (Socket True)\<rparr>) =
     (init\<lparr>fortress_socket := Some (Socket True)\<rparr>,
      [SocketSend ([0x00, 0x00, 0x00, 0x03, 0x57, 0x00, 0x00, 0x90, 0x01, 0x00, 0x10, 0x00, 0x00]
                   @ [0x00] @ replicate 78 0x00)], None)"
proof -
  have h1: "fortress_socket (init\<lparr>fortress_socket := Some (Socket True)\<rparr>) \<noteq> None" by simp
  have h2: "length DISARM = 1" by (simp add: DISARM_def)
  show ?thesis
    using C7_send_command [OF h1 h2] by (simp add: COMMAND_def DISARM_def)
qed

subsection \<open>C8: when the handlers are called\<close>

text \<open>
  C8, as the claim states it, fails: \<^verbatim>\<open>_set_all_good\<close> and \<^verbatim>\<open>_set_alarming\<close> call their handler
  on every call. Teardown of a client that is already unhealthy and not alarming calls the
  health handler with false and the alarm handler with \<^verbatim>\<open>None\<close>, the values already stored.
\<close>

theorem C8_counterexample:
  "all_good (init\<lparr>onErrorChange := True, onAlarmChange := True\<rparr>) = False \<and>
   alarming (init\<lparr>onErrorChange := True, onAlarmChange := True\<rparr>) = None \<and>
   error_calls (events_of (tear_down (init\<lparr>onErrorChange := True, onAlarmChange := True\<rparr>)))
     = [False] \<and>
   alarm_calls (events_of (tear_down (init\<lparr>onErrorChange := True, onAlarmChange := True\<rparr>)))
     = [(None, 0)]"
  by code_simp

text \<open>
  C8, amended: the status handler is called only with a status that differs from the stored
  one, and processing a payload calls the alarm handler only with a flag that differs from
  the stored one; teardown, the two rescheduling methods and the two sending methods never
  call the status handler. The health handler is called with false by every teardown and
  every immediate-error reschedule (that of an invalid payload included), and the alarm
  handler with \<^verbatim>\<open>(None, 0)\<close> by every teardown, whatever is stored.
\<close>

theorem C8_callbacks_on_change:
  "(\<forall>st \<in> set (status_calls (events_of (process_update data s))). Some st \<noteq> arm_status s) \<and>
   (\<forall>c \<in> set (alarm_calls (events_of (process_update data s))). fst c \<noteq> alarming s) \<and>
   status_calls (events_of (tear_down s)) = [] \<and>
   status_calls (events_of (reschedule_reconnect_asap s)) = [] \<and>
   alarm_calls (events_of (reschedule_reconnect_asap s)) = [] \<and>
   status_calls (events_of (reschedule_reconnect s)) = [] \<and>
   alarm_calls (events_of (reschedule_reconnect s)) = [] \<and>
   error_calls (events_of (reschedule_reconnect s)) = [] \<and>
   status_calls (events_of (sendCommand msg s)) = [] \<and>
   alarm_calls (events_of (sendCommand msg s)) = [] \<and>
   error_calls (events_of (sendCommand msg s)) = [] \<and>
   status_calls (events_of (send_heartbeat s)) = [] \<and>
   alarm_calls (events_of (send_heartbeat s)) = [] \<and>
   error_calls (events_of (send_heartbeat s)) = [] \<and>
   error_calls (events_of (process_update data s)) =
     (if (data = [] \<or> (length data \<noteq> 182 \<and> length data \<noteq> 8 \<and> data \<noteq> CONNECTION_IS_BOUND)) \<and>
         onErrorChange s
      then [False] else []) \<and>
   error_calls (events_of (tear_down s)) = (if onErrorChange s then [False] else []) \<and>
   error_calls (events_of (reschedule_reconnect_asap s)) =
     (if onErrorChange s then [False] else []) \<and>
   alarm_calls (events_of (tear_down s)) = (if onAlarmChange s then [(None, 0)] else [])"
  using process_update_calls [of data s] process_update_error_calls [of data s]
  by (simp add: tear_down_eq reschedule_reconnect_asap_eq reschedule_reconnect_eq
      sendCommand_def send_to_socket_eq send_heartbeat_eq split: option.splits)

text \<open>
  C8 on a frame that changes both the status and the alarming flag of a fresh client.
\<close>

theorem C8_callbacks_on_change_witness:
  "status_calls (events_of (process_update (replicate 181 0 @ [1])
      (init\<lparr>onStatusChange := True, onAlarmChange := True\<rparr>))) = [ARM] \<and>
   alarm_calls (events_of (process_update (replicate 181 0 @ [1])
      (init\<lparr>onStatusChange := True, onAlarmChange := True\<rparr>))) = [(Some True, 0)] \<and>
   Some ARM \<noteq> arm_status (init\<lparr>onStatusChange := True, onAlarmChange := True\<rparr>) \<and>
   Some True \<noteq> alarming (init\<lparr>onStatusChange := True, onAlarmChange := True\<rparr>)"
proof -
  let ?d = "replicate 181 0 @ [1 :: byte]"
  let ?s = "init\<lparr>onStatusChange := True, onAlarmChange := True\<rparr>"
  have st: "status_calls (events_of (process_update ?d ?s)) = [ARM]" by code_simp
  have al: "alarm_calls (events_of (process_update ?d ?s)) = [(Some True, 0)]" by code_simp
  from C8_callbacks_on_change [of ?d ?s] st al show ?thesis by simp
qed

subsection \<open>C9: teardown twice\<close>

text \<open>
  C9, as the claim states it, fails: the second of two consecutive teardowns calls the health
  handler and the alarm handler again.
\<close>

theorem C9_counterexample:
  "events_of (tear_down (state_of (tear_down
      (init\<lparr>all_good := True, fortress_socket := Some (Socket True),
         onErrorChange := True, onAlarmChange := True\<rparr>)))) =
     [OnErrorChange False, OnAlarmChange None 0]"
  by code_simp

text \<open>
  C9, amended: teardown is idempotent on the client: for every client, two consecutive
  teardowns leave it as one does. The second calls the health handler with false and the
  alarm handler with \<^verbatim>\<open>(None, 0)\<close> again, each if set. When the client holds no socket or a
  connected one, the first teardown runs to its end and the second does nothing but these
  calls: no socket or timer operation, nothing raised.
\<close>

theorem C9_tear_down_twice:
  "state_of (tear_down (state_of (tear_down s))) = state_of (tear_down s) \<and>
   error_calls (events_of (tear_down (state_of (tear_down s)))) =
     (if onErrorChange s then [False] else []) \<and>
   alarm_calls (events_of (tear_down (state_of (tear_down s)))) =
     (if onAlarmChange s then [(None, 0)] else []) \<and>
   (fortress_socket s \<noteq> Some (Socket False) \<longrightarrow>
      raised (tear_down s) = None \<and>
      events_of (tear_down (state_of (tear_down s))) =
        (if onErrorChange s then [OnErrorChange False] else []) @
        (if onAlarmChange s then [OnAlarmChange None 0] else []) \<and>
      raised (tear_down (state_of (tear_down s))) = None)"
  by (simp add: tear_down_eq)

text \<open>
  C9 on a connected, alarming client with both timers running: with no handler set the second
  teardown does nothing; with both set it makes the two calls. On a client left with an
  unconnected socket by a failed connect, the second teardown leaves the client as the first.
\<close>

theorem C9_tear_down_twice_witness:
  "fortress_socket (init\<lparr>all_good := True, count := 7,
       fortress_socket := Some (Socket True), arm_status := Some DISARM, alarming := Some True,
       timeout_timer := Some (Timer 9 (Reconnect [])),
       heartbeat_timer := Some (RepeatingTimer 4 SendHeartbeat)\<rparr>) \<noteq> Some (Socket False) \<and>
   state_of (tear_down (state_of (tear_down (init\<lparr>all_good := True, count := 7,
       fortress_socket := Some (Socket True), arm_status := Some DISARM, alarming := Some True,
       timeout_timer := Some (Timer 9 (Reconnect [])),
       heartbeat_timer := Some (RepeatingTimer 4 SendHeartbeat)\<rparr>)))) = init \<and>
   events_of (tear_down (state_of (tear_down (init\<lparr>all_good := True, count := 7,
       fortress_socket := Some (Socket True), arm_status := Some DISARM, alarming := Some True,
       timeout_timer := Some (Timer 9 (Reconnect [])),
       heartbeat_timer := Some (RepeatingTimer 4 SendHeartbeat)\<rparr>)))) = [] \<and>
   events_of (tear_down (state_of (tear_down (init\<lparr>all_good := True,
       fortress_socket := Some (Socket True), alarming := Some True,
       onErrorChange := True, onAlarmChange := True\<rparr>)))) =
     [OnErrorChange False, OnAlarmChange None 0] \<and>
   state_of (tear_down (state_of (tear_down (init\<lparr>fortress_socket := Some (Socket False),
       timeout_timer := Some (Timer 3 (Reconnect ''...AFTER EXCEPTION''))\<rparr>)))) =
     state_of (tear_down (init\<lparr>fortress_socket := Some (Socket False),
       timeout_timer := Some (Timer 3 (Reconnect ''...AFTER EXCEPTION''))\<rparr>))"
  using C9_tear_down_twice [of "init\<lparr>all_good := True, count := 7,
       fortress_socket := Some (Socket True), arm_status := Some DISARM, alarming := Some True,
       timeout_timer := Some (Timer 9 (Reconnect [])),
       heartbeat_timer := Some (RepeatingTimer 4 SendHeartbeat)\<rparr>"]
    C9_tear_down_twice [of "init\<lparr>all_good := True,
       fortress_socket := Some (Socket True), alarming := Some True,
       onErrorChange := True, onAlarmChange := True\<rparr>"]
    C9_tear_down_twice [of "init\<lparr>fortress_socket := Some (Socket False),
       timeout_timer := Some (Timer 3 (Reconnect ''...AFTER EXCEPTION''))\<rparr>"]
  by (simp add: tear_down_eq init_def)

subsection \<open>C10: eight bytes that are no acknowledgement\<close>

text \<open>
  C10: a payload of exactly 8 bytes that does not hold the acknowledgement literal changes
  nothing: the client is returned as it was, no handler is called, no timer or socket
  operation happens, and nothing is raised.
\<close>

theorem C10_short_payload_no_op:
  assumes "length data = 8" and "\<not> sublist HEARTBEAT_ACK data"
  shows "process_update data s = (s, [], None)"
proof -
  from assms(1) have "data \<noteq> []" "length data \<noteq> 182" by auto
  from process_update_other [OF this] assms show ?thesis by simp
qed

text \<open>
  C10 at the heartbeat literal itself, which differs from the acknowledgement in its last
  byte, on a client with every attribute set.
\<close>

theorem C10_short_payload_no_op_witness:
  "\<not> sublist HEARTBEAT_ACK HEARTBEAT \<and>
   process_update HEARTBEAT
     (init\<lparr>all_good := True, count := 5, fortress_socket := Some (Socket True),
        arm_status := Some ARM, alarming := Some True,
        timeout_timer := Some (Timer 9 (Reconnect [])),
        heartbeat_timer := Some (RepeatingTimer 4 SendHeartbeat),
        onStatusChange := True, onErrorChange := True, onAlarmChange := True\<rparr>) =
     (init\<lparr>all_good := True, count := 5, fortress_socket := Some (Socket True),
        arm_status := Some ARM, alarming := Some True,
        timeout_timer := Some (Timer 9 (Reconnect [])),
        heartbeat_timer := Some (RepeatingTimer 4 SendHeartbeat),
        onStatusChange := True, onErrorChange := True, onAlarmChange := True\<rparr>, [], None)"
proof -
  have h1: "length HEARTBEAT = 8" by (simp add: HEARTBEAT_def)
  have h2: "\<not> sublist HEARTBEAT_ACK HEARTBEAT" by code_simp
  show ?thesis using C10_short_payload_no_op [OF h1 h2] h2 by simp
qed

end
